theory Spec2Isabelle
  imports Main "HOL-Library.Word"
begin

section \<open>Machine types and observable effects\<close>

text \<open>
  The bootloader targets a 64-bit little-endian platform: \<open>size_t\<close> and \<open>uintptr_t\<close>
  are 64-bit words, \<open>uint32_t\<close> and \<open>uint8_t\<close> are 32-bit and 8-bit words, and a C
  \<open>int\<close> result is an \<open>int\<close> (only the values 0 and -1 are ever produced, so
  no arithmetic on results can overflow).
\<close>

type_synonym u8 = "8 word"
type_synonym u32 = "32 word"
type_synonym size_t = "64 word"
type_synonym uintptr_t = "64 word"

text \<open>
  Console output and calls into liboqs are the side effects of the verification code;
  every function of the model returns the list of effects it performed, in order.
  A \<open>printf\<close> is recorded with its format string and its arguments.
\<close>

datatype printf_arg = ArgU32 u32 | ArgSize size_t | ArgAddr uintptr_t | ArgByte u8

datatype event =
    Printf string "printf_arg list"
  | Call_OQS_SHA2_sha256
  | Call_OQS_SIG_new
  | Call_OQS_SIG_verify
  | Call_OQS_SIG_free

fun is_crypto_call :: "event \<Rightarrow> bool" where
  "is_crypto_call (Printf fmt args) = False"
| "is_crypto_call Call_OQS_SHA2_sha256 = True"
| "is_crypto_call Call_OQS_SIG_new = True"
| "is_crypto_call Call_OQS_SIG_verify = True"
| "is_crypto_call Call_OQS_SIG_free = True"

text \<open>
  A pointer parameter is modelled by what can be read through it: \<open>Some\<close> of the
  object it points to, or \<open>None\<close> when the bytes of that object are not all readable.
  Reading through such a pointer is undefined behaviour in C, which the model reports
  as \<open>Fault\<close>; a function that comes back to its caller yields \<open>Return\<close> of its
  result.
\<close>

type_synonym 'a ptr = "'a option"

datatype 'a outcome = Fault | Return 'a

section \<open>kyber1024_verify.h\<close>

definition KYBER1024_PUBLIC_KEY_BYTES :: nat where
  "KYBER1024_PUBLIC_KEY_BYTES = 1568"

definition KYBER1024_SIGNATURE_BYTES :: nat where
  "KYBER1024_SIGNATURE_BYTES = 3309"

record qwamos_signature =
  magic :: u32
  version :: u32
  image_size :: u32
  image_hash :: "u8 list"
  kyber_signature :: "u8 list"
  reserved :: "u8 list"

definition QWAMOS_SIG_MAGIC :: u32 where
  "QWAMOS_SIG_MAGIC = 0x4D415751"

definition QWAMOS_SIG_VERSION :: u32 where
  "QWAMOS_SIG_VERSION = 1"

text \<open>
  The code reads a record through a \<open>const struct qwamos_signature *\<close> one field at a
  time, so a pointer to a record is modelled field by field: \<open>ptr_magic\<close> is what
  reading \<open>signature->magic\<close> yields, \<open>None\<close> when the four bytes of that field are
  not readable, and likewise for the other fields (\<open>reserved\<close> is never accessed).
  \<open>points_to sg\<close> is a pointer to the record \<open>sg\<close>, all of it readable.
\<close>

record qwamos_signature_ptr =
  ptr_magic :: "u32 ptr"
  ptr_version :: "u32 ptr"
  ptr_image_size :: "u32 ptr"
  ptr_image_hash :: "u8 list ptr"
  ptr_kyber_signature :: "u8 list ptr"

definition points_to :: "qwamos_signature \<Rightarrow> qwamos_signature_ptr" where
  "points_to sg =
     \<lparr>ptr_magic = Some (magic sg),
      ptr_version = Some (version sg),
      ptr_image_size = Some (image_size sg),
      ptr_image_hash = Some (image_hash sg),
      ptr_kyber_signature = Some (kyber_signature sg)\<rparr>"

section \<open>The liboqs interface\<close>

text \<open>
  liboqs is not part of the repository: its three entry points are parameters of the
  model, and each receives exactly the arguments the C call passes (a buffer as the bytes
  of the object pointed to, next to the length argument of the call).
  \<open>OQS_SIG_new\<close> yields \<open>None\<close> for the NULL pointer; of the scheme object only the
  field \<open>length_signature\<close> is read by the bootloader. Handing a liboqs function a
  buffer to read that is not readable is a \<open>Fault\<close> at that call.
\<close>

record OQS_SIG =
  length_signature :: size_t

record liboqs =
  OQS_SHA2_sha256 :: "u8 list \<Rightarrow> size_t \<Rightarrow> u8 list"
  OQS_SIG_new :: "string \<Rightarrow> OQS_SIG option"
  OQS_SIG_verify :: "OQS_SIG \<Rightarrow> u8 list \<Rightarrow> size_t \<Rightarrow> u8 list \<Rightarrow> size_t \<Rightarrow> u8 list \<Rightarrow> int"

definition OQS_SUCCESS :: int where
  "OQS_SUCCESS = 0"

definition OQS_SIG_alg_dilithium_5 :: string where
  "OQS_SIG_alg_dilithium_5 = ''Dilithium5''"

text \<open>
  \<open>memcmp\<close> over the first \<open>n\<close> bytes of two buffers: the sign of the first
  difference. Both buffers hold at least \<open>n\<close> bytes wherever the bootloader calls it
  (two 32-byte arrays); the equations for shorter buffers only make the function total.
\<close>

fun memcmp :: "u8 list \<Rightarrow> u8 list \<Rightarrow> nat \<Rightarrow> int" where
  "memcmp s1 s2 0 = 0"
| "memcmp (a # s1) (b # s2) (Suc n) =
     (if a < b then - 1 else if b < a then 1 else memcmp s1 s2 n)"
| "memcmp [] [] (Suc n) = 0"
| "memcmp [] (b # s2) (Suc n) = - 1"
| "memcmp (a # s1) [] (Suc n) = 1"

section \<open>kyber1024_verify.c\<close>

definition qwamos_public_key :: "u8 list" where
  "qwamos_public_key = replicate KYBER1024_PUBLIC_KEY_BYTES 0"

text \<open>\<open>sha256_hash\<close> returns the contents of \<open>hash_out\<close> after the call.\<close>

definition sha256_hash :: "liboqs \<Rightarrow> u8 list \<Rightarrow> size_t \<Rightarrow> u8 list \<times> event list" where
  "sha256_hash oqs data data_size =
     (OQS_SHA2_sha256 oqs data data_size, [Call_OQS_SHA2_sha256])"

definition kyber1024_verify_signature ::
  "liboqs \<Rightarrow> u8 list \<Rightarrow> size_t \<Rightarrow> u8 list ptr \<Rightarrow> u8 list
     \<Rightarrow> int outcome \<times> event list" where
  "kyber1024_verify_signature oqs message message_len signature public_key =
     (case OQS_SIG_new oqs OQS_SIG_alg_dilithium_5 of
        None \<Rightarrow>
          (Return (- 1),
           [Call_OQS_SIG_new,
            Printf ''ERROR: Failed to initialize Kyber signature scheme\<newline>'' []])
      | Some sig \<Rightarrow>
          (case signature of
             None \<Rightarrow> (Fault, [Call_OQS_SIG_new])
           | Some signature_bytes \<Rightarrow>
               if OQS_SIG_verify oqs sig message message_len signature_bytes
                    (length_signature sig) public_key = OQS_SUCCESS
               then (Return 0, [Call_OQS_SIG_new, Call_OQS_SIG_verify, Call_OQS_SIG_free])
               else (Return (- 1),
                     [Call_OQS_SIG_new, Call_OQS_SIG_verify,
                      Printf ''ERROR: Signature verification failed!\<newline>'' [],
                      Call_OQS_SIG_free])))"

text \<open>
  The arguments \<open>image\<close> and \<open>image_size\<close> of \<open>kyber1024_verify_image\<close> are called
  \<open>img\<close> and \<open>img_size\<close> here, the first name being a constant of HOL and the second
  a field of the record. \<open>Some data\<close> for \<open>img\<close> means that the \<open>img_size\<close> bytes at the
  pointer are readable and are \<open>data\<close>. Each field of the record is read where the
  code first uses it, so a check that fails returns before any later field is touched.
  The two loops that print a hash byte by byte are \<open>print_hex\<close>.
\<close>

definition print_hex :: "u8 list \<Rightarrow> event list" where
  "print_hex bytes = map (\<lambda>b. Printf ''%02x'' [ArgByte b]) (take 32 bytes)"

definition kyber1024_verify_image ::
  "liboqs \<Rightarrow> u8 list ptr \<Rightarrow> size_t \<Rightarrow> qwamos_signature_ptr \<Rightarrow> u8 list
     \<Rightarrow> int outcome \<times> event list" where
  "kyber1024_verify_image oqs img img_size signature public_key =
     (case ptr_magic signature of
        None \<Rightarrow> (Fault, [])
      | Some m \<Rightarrow>
          if m \<noteq> QWAMOS_SIG_MAGIC then
            (Return (- 1),
             [Printf ''ERROR: Invalid signature magic: 0x%08x\<newline>'' [ArgU32 m]])
          else
     (case ptr_version signature of
        None \<Rightarrow> (Fault, [])
      | Some v \<Rightarrow>
          if v \<noteq> QWAMOS_SIG_VERSION then
            (Return (- 1),
             [Printf ''ERROR: Unsupported signature version: %d\<newline>'' [ArgU32 v]])
          else
     (case ptr_image_size signature of
        None \<Rightarrow> (Fault, [])
      | Some sz \<Rightarrow>
          if ucast sz \<noteq> img_size then
            (Return (- 1),
             [Printf ''ERROR: Image size mismatch: expected %u, got %zu\<newline>''
                [ArgU32 sz, ArgSize img_size]])
          else
     (case img of
        None \<Rightarrow> (Fault, [])
      | Some data \<Rightarrow>
     (case sha256_hash oqs data img_size of
        (computed_hash, t1) \<Rightarrow>
     (case ptr_image_hash signature of
        None \<Rightarrow> (Fault, t1)
      | Some hash \<Rightarrow>
          if memcmp computed_hash hash 32 \<noteq> 0 then
            (Return (- 1),
             t1 @ [Printf ''ERROR: Image hash mismatch!\<newline>'' [],
                   Printf ''  Expected: '' []]
                @ print_hex hash
                @ [Printf ''\<newline>  Computed: '' []]
                @ print_hex computed_hash
                @ [Printf ''\<newline>'' []])
          else
     (case kyber1024_verify_signature oqs computed_hash 32
             (ptr_kyber_signature signature) public_key of
        (Fault, t2) \<Rightarrow>
          (Fault, t1 @ [Printf ''Verifying Kyber-1024 signature...\<newline>'' []] @ t2)
      | (Return r, t2) \<Rightarrow>
          if r \<noteq> 0 then
            (Return (- 1),
             t1 @ [Printf ''Verifying Kyber-1024 signature...\<newline>'' []]
                @ t2
                @ [Printf ''ERROR: Kyber-1024 signature verification failed!\<newline>'' []])
          else
            (Return 0,
             t1 @ [Printf ''Verifying Kyber-1024 signature...\<newline>'' []]
                @ t2
                @ [Printf ''SUCCESS: Image signature verified (Kyber-1024)\<newline>''
                     []]))))))))"

subsection \<open>Images in memory\<close>

text \<open>
  \<open>kyber1024_verify_kernel\<close> and \<open>kyber1024_verify_initramfs\<close> receive an address,
  not an object. Memory maps an address to the byte stored there, or to \<open>None\<close> where
  nothing is mapped. A read of \<open>n\<close> bytes at an address succeeds when these \<open>n\<close> bytes
  are mapped. The record is packed (no padding between fields): \<open>magic\<close> is at offset
  0, \<open>version\<close> at 4, \<open>image_size\<close> at 8, \<open>image_hash\<close> at 12 and \<open>kyber_signature\<close>
  at 44. Its 32-bit fields are little-endian, the byte order in which the constant
  \<open>0x4D415751\<close> spells \<open>QWAM\<close>.
\<close>

type_synonym memory = "uintptr_t \<Rightarrow> u8 option"

fun load_bytes :: "memory \<Rightarrow> uintptr_t \<Rightarrow> nat \<Rightarrow> u8 list option" where
  "load_bytes mem p 0 = Some []"
| "load_bytes mem p (Suc n) =
     (case mem p of
        None \<Rightarrow> None
      | Some b \<Rightarrow>
          (case load_bytes mem (p + 1) n of
             None \<Rightarrow> None
           | Some bs \<Rightarrow> Some (b # bs)))"

definition le32 :: "u8 list \<Rightarrow> u32" where
  "le32 bs = word_of_nat (foldr (\<lambda>b acc. unat b + 256 * acc) bs 0)"

definition sizeof_qwamos_signature :: nat where
  "sizeof_qwamos_signature = 4 + 4 + 4 + 32 + KYBER1024_SIGNATURE_BYTES + 64"

definition bytes_at :: "memory \<Rightarrow> uintptr_t \<Rightarrow> size_t \<Rightarrow> u8 list ptr" where
  "bytes_at mem p n = load_bytes mem p (unat n)"

definition signature_at :: "memory \<Rightarrow> uintptr_t \<Rightarrow> qwamos_signature_ptr" where
  "signature_at mem p =
     \<lparr>ptr_magic = map_option le32 (load_bytes mem p 4),
      ptr_version = map_option le32 (load_bytes mem (p + 4) 4),
      ptr_image_size = map_option le32 (load_bytes mem (p + 8) 4),
      ptr_image_hash = load_bytes mem (p + 12) 32,
      ptr_kyber_signature = load_bytes mem (p + 44) KYBER1024_SIGNATURE_BYTES\<rparr>"

definition kyber1024_verify_kernel ::
  "liboqs \<Rightarrow> memory \<Rightarrow> uintptr_t \<Rightarrow> size_t \<Rightarrow> int outcome \<times> event list" where
  "kyber1024_verify_kernel oqs mem kernel_addr kernel_size =
     (let kernel_image = kernel_addr;
          t0 = [Printf ''=== QWAMOS Secure Boot: Kernel Verification ===\<newline>'' [],
                Printf ''Kernel address: 0x%lx\<newline>'' [ArgAddr kernel_addr],
                Printf ''Kernel size: %zu bytes\<newline>'' [ArgSize kernel_size]];
          sig = kernel_image + kernel_size
      in case kyber1024_verify_image oqs (bytes_at mem kernel_image kernel_size) kernel_size
                (signature_at mem sig) qwamos_public_key of
           (Fault, t1) \<Rightarrow> (Fault, t0 @ t1)
         | (Return r, t1) \<Rightarrow>
             if r \<noteq> 0 then
               (Return (- 1),
                t0 @ t1 @ [Printf ''CRITICAL: Kernel signature verification FAILED!\<newline>'' [],
                           Printf ''Boot process halted for security.\<newline>'' []])
             else
               (Return 0,
                t0 @ t1 @ [Printf ''Kernel signature verified successfully.\<newline>'' []]))"

definition kyber1024_verify_initramfs ::
  "liboqs \<Rightarrow> memory \<Rightarrow> uintptr_t \<Rightarrow> size_t \<Rightarrow> int outcome \<times> event list" where
  "kyber1024_verify_initramfs oqs mem initramfs_addr initramfs_size =
     (let initramfs_image = initramfs_addr;
          t0 = [Printf ''=== QWAMOS Secure Boot: Initramfs Verification ===\<newline>'' [],
                Printf ''Initramfs address: 0x%lx\<newline>'' [ArgAddr initramfs_addr],
                Printf ''Initramfs size: %zu bytes\<newline>'' [ArgSize initramfs_size]];
          sig = initramfs_image + initramfs_size
      in case kyber1024_verify_image oqs (bytes_at mem initramfs_image initramfs_size)
                initramfs_size (signature_at mem sig) qwamos_public_key of
           (Fault, t1) \<Rightarrow> (Fault, t0 @ t1)
         | (Return r, t1) \<Rightarrow>
             if r \<noteq> 0 then
               (Return (- 1),
                t0 @ t1 @ [Printf ''CRITICAL: Initramfs signature verification FAILED!\<newline>'' [],
                           Printf ''Boot process halted for security.\<newline>'' []])
             else
               (Return 0,
                t0 @ t1 @ [Printf ''Initramfs signature verified successfully.\<newline>'' []]))"

subsection \<open>Key loading and the boot chain\<close>

text \<open>
  \<open>memcpy\<close> of \<open>n\<close> bytes into a buffer: the first \<open>n\<close> bytes are replaced. Copying
  more bytes than either object holds is undefined behaviour (\<open>None\<close>).
\<close>

definition memcpy :: "u8 list \<Rightarrow> u8 list \<Rightarrow> nat \<Rightarrow> u8 list option" where
  "memcpy dest src n =
     (if n \<le> length dest \<and> n \<le> length src then Some (take n src @ drop n dest) else None)"

text \<open>
  \<open>kyber1024_load_public_key\<close> returns its result together with the contents of
  \<open>key_buffer\<close> after the call.
\<close>

definition kyber1024_load_public_key ::
  "u8 list \<Rightarrow> size_t \<Rightarrow> (int \<times> u8 list) outcome \<times> event list" where
  "kyber1024_load_public_key key_buffer key_size =
     (if key_size < word_of_nat KYBER1024_PUBLIC_KEY_BYTES then
        (Return (- 1, key_buffer), [Printf ''ERROR: Key buffer too small\<newline>'' []])
      else
        (case memcpy key_buffer qwamos_public_key KYBER1024_PUBLIC_KEY_BYTES of
           None \<Rightarrow> (Fault, [])
         | Some key_buffer' \<Rightarrow> (Return (0, key_buffer'), [])))"

definition rule_line :: string where
  "rule_line = replicate 80 (CHR ''='') @ ''\<newline>''"

text \<open>
  The local array \<open>public_key\<close> of \<open>secure_boot_verify_chain\<close> is not initialised:
  its 1568 bytes are whatever \<open>uninit\<close> gives.
\<close>

definition secure_boot_verify_chain :: "(nat \<Rightarrow> u8) \<Rightarrow> int outcome \<times> event list" where
  "secure_boot_verify_chain uninit =
     (let t0 = [Printf ''\<newline>'' [],
                Printf rule_line [],
                Printf ''                    QWAMOS SECURE BOOT VERIFICATION\<newline>'' [],
                Printf ''           Post-Quantum Cryptography: Kyber-1024 (NIST FIPS 203)\<newline>'' [],
                Printf rule_line [],
                Printf ''\<newline>'' [],
                Printf ''Step 1: Loading public key...\<newline>'' []];
          public_key = map uninit [0..<KYBER1024_PUBLIC_KEY_BYTES]
      in case kyber1024_load_public_key public_key (word_of_nat (length public_key)) of
           (Fault, t1) \<Rightarrow> (Fault, t0 @ t1)
         | (Return (r, public_key'), t1) \<Rightarrow>
             if r \<noteq> 0 then
               (Return (- 1), t0 @ t1 @ [Printf ''CRITICAL: Failed to load public key!\<newline>'' []])
             else
               (Return 0,
                t0 @ t1 @ [Printf ''Public key loaded successfully.\<newline>\<newline>'' [],
                           Printf rule_line [],
                           Printf ''QWAMOS Secure Boot: Ready to verify boot images\<newline>'' [],
                           Printf rule_line [],
                           Printf ''\<newline>'' []]))"

section \<open>usb_killswitch.c\<close>

definition GPIO_CAMERA_KILL :: int where
  "GPIO_CAMERA_KILL = 123"

definition GPIO_MIC_KILL :: int where
  "GPIO_MIC_KILL = 124"

definition GPIO_CELLULAR_KILL :: int where
  "GPIO_CELLULAR_KILL = 125"

definition EINVAL :: int where
  "EINVAL = 22"

record killswitch_state =
  camera_enabled :: int
  mic_enabled :: int
  cellular_enabled :: int

text \<open>
  The driver's state is the static \<open>ks_state\<close>, the levels of the GPIO lines as
  \<open>gpio_set_value\<close> leaves them and \<open>gpio_get_value\<close> reads them, and the kernel log
  written by \<open>pr_info\<close>.
\<close>

datatype klog_arg = KInt int | KStr string

datatype klog = Pr_info string "klog_arg list"

record driver =
  ks_state :: killswitch_state
  gpio_value :: "int \<Rightarrow> int"
  kernel_log :: "klog list"

definition gpio_set_state :: "int \<Rightarrow> int \<Rightarrow> driver \<Rightarrow> driver" where
  "gpio_set_state gpio_pin val d =
     d\<lparr>gpio_value := (gpio_value d)(gpio_pin := val),
       kernel_log := kernel_log d @
         [Pr_info ''[USB KillSwitch] GPIO %d set to %d\<newline>'' [KInt gpio_pin, KInt val]]\<rparr>"

definition gpio_get_state :: "int \<Rightarrow> driver \<Rightarrow> int" where
  "gpio_get_state gpio_pin d = gpio_value d gpio_pin"

text \<open>\<open>sprintf\<close> of one \<open>%d\<close>: the decimal digits, after a minus sign when negative.\<close>

fun decimal :: "nat \<Rightarrow> string" where
  "decimal n =
     (if n < 10 then [''0123456789'' ! n]
      else decimal (n div 10) @ [''0123456789'' ! (n mod 10)])"

declare decimal.simps [simp del]

definition sprintf_d :: "int \<Rightarrow> string" where
  "sprintf_d i = (if i < 0 then CHR ''-'' # decimal (nat (- i)) else decimal (nat i))"

text \<open>
  A \<open>show\<close> function returns the number of characters written and the text left in
  \<open>buf\<close>. A \<open>store\<close> function returns its result and the driver's state after the call.
  The kernel's \<open>sscanf\<close> with the format \<open>%d\<close> is a parameter: \<open>Some v\<close> when
  one integer was converted and stored (the call returned 1), \<open>None\<close> otherwise.
\<close>

definition camera_show :: "driver \<Rightarrow> int \<times> string" where
  "camera_show d =
     (let buf = sprintf_d (camera_enabled (ks_state d)) @ ''\<newline>''
      in (int (length buf), buf))"

definition camera_store ::
  "(string \<Rightarrow> int option) \<Rightarrow> driver \<Rightarrow> string \<Rightarrow> size_t \<Rightarrow> int \<times> driver" where
  "camera_store sscanf d buf count =
     (case sscanf buf of
        None \<Rightarrow> (- EINVAL, d)
      | Some val \<Rightarrow>
          if val \<noteq> 0 \<and> val \<noteq> 1 then (- EINVAL, d)
          else
            (let d1 = d\<lparr>ks_state := (ks_state d)\<lparr>camera_enabled := val\<rparr>\<rparr>;
                 d2 = gpio_set_state GPIO_CAMERA_KILL val d1;
                 d3 = d2\<lparr>kernel_log := kernel_log d2 @
                        [Pr_info ''[USB KillSwitch] Camera kill switch: %s\<newline>''
                           [KStr (if val \<noteq> 0 then ''ENABLED (camera OFF)''
                                  else ''DISABLED (camera ON)'')]]\<rparr>
             in (sint count, d3)))"

definition mic_show :: "driver \<Rightarrow> int \<times> string" where
  "mic_show d =
     (let buf = sprintf_d (mic_enabled (ks_state d)) @ ''\<newline>''
      in (int (length buf), buf))"

definition mic_store ::
  "(string \<Rightarrow> int option) \<Rightarrow> driver \<Rightarrow> string \<Rightarrow> size_t \<Rightarrow> int \<times> driver" where
  "mic_store sscanf d buf count =
     (case sscanf buf of
        None \<Rightarrow> (- EINVAL, d)
      | Some val \<Rightarrow>
          if val \<noteq> 0 \<and> val \<noteq> 1 then (- EINVAL, d)
          else
            (let d1 = d\<lparr>ks_state := (ks_state d)\<lparr>mic_enabled := val\<rparr>\<rparr>;
                 d2 = gpio_set_state GPIO_MIC_KILL val d1;
                 d3 = d2\<lparr>kernel_log := kernel_log d2 @
                        [Pr_info ''[USB KillSwitch] Microphone kill switch: %s\<newline>''
                           [KStr (if val \<noteq> 0 then ''ENABLED (mic OFF)''
                                  else ''DISABLED (mic ON)'')]]\<rparr>
             in (sint count, d3)))"

definition cellular_show :: "driver \<Rightarrow> int \<times> string" where
  "cellular_show d =
     (let buf = sprintf_d (cellular_enabled (ks_state d)) @ ''\<newline>''
      in (int (length buf), buf))"

definition cellular_store ::
  "(string \<Rightarrow> int option) \<Rightarrow> driver \<Rightarrow> string \<Rightarrow> size_t \<Rightarrow> int \<times> driver" where
  "cellular_store sscanf d buf count =
     (case sscanf buf of
        None \<Rightarrow> (- EINVAL, d)
      | Some val \<Rightarrow>
          if val \<noteq> 0 \<and> val \<noteq> 1 then (- EINVAL, d)
          else
            (let d1 = d\<lparr>ks_state := (ks_state d)\<lparr>cellular_enabled := val\<rparr>\<rparr>;
                 d2 = gpio_set_state GPIO_CELLULAR_KILL val d1;
                 d3 = d2\<lparr>kernel_log := kernel_log d2 @
                        [Pr_info ''[USB KillSwitch] Cellular kill switch: %s\<newline>''
                           [KStr (if val \<noteq> 0 then ''ENABLED (cellular OFF)''
                                  else ''DISABLED (cellular ON)'')]]\<rparr>
             in (sint count, d3)))"

definition status_show :: "driver \<Rightarrow> int \<times> string" where
  "status_show d =
     (let buf = ''Camera: '' @ (if camera_enabled (ks_state d) \<noteq> 0 then ''OFF'' else ''ON'')
                  @ ''\<newline>''
                  @ ''Mic: '' @ (if mic_enabled (ks_state d) \<noteq> 0 then ''OFF'' else ''ON'')
                  @ ''\<newline>''
                  @ ''Cellular: ''
                  @ (if cellular_enabled (ks_state d) \<noteq> 0 then ''OFF'' else ''ON'')
                  @ ''\<newline>''
      in (int (length buf), buf))"

text \<open>
  The three writable attributes of \<open>ks_attrs\<close>, each with the field of \<open>ks_state\<close> it
  shows, the GPIO line it drives and its \<open>show\<close> and \<open>store\<close> functions.
\<close>

datatype toggle = Camera | Mic | Cellular

fun toggle_enabled :: "toggle \<Rightarrow> killswitch_state \<Rightarrow> int" where
  "toggle_enabled Camera = camera_enabled"
| "toggle_enabled Mic = mic_enabled"
| "toggle_enabled Cellular = cellular_enabled"

fun toggle_gpio :: "toggle \<Rightarrow> int" where
  "toggle_gpio Camera = GPIO_CAMERA_KILL"
| "toggle_gpio Mic = GPIO_MIC_KILL"
| "toggle_gpio Cellular = GPIO_CELLULAR_KILL"

fun toggle_show :: "toggle \<Rightarrow> driver \<Rightarrow> int \<times> string" where
  "toggle_show Camera = camera_show"
| "toggle_show Mic = mic_show"
| "toggle_show Cellular = cellular_show"

fun toggle_store ::
  "toggle \<Rightarrow> (string \<Rightarrow> int option) \<Rightarrow> driver \<Rightarrow> string \<Rightarrow> size_t \<Rightarrow> int \<times> driver" where
  "toggle_store Camera = camera_store"
| "toggle_store Mic = mic_store"
| "toggle_store Cellular = cellular_store"

section \<open>Concrete inputs\<close>

text \<open>
  A stand-in for liboqs used to run the model: the digest is 32 copies of the sum of
  the bytes hashed, only the scheme \<open>Dilithium5\<close> exists, and a signature is accepted when it
  consists of 3309 bytes of value 7.
\<close>

definition ex_oqs :: liboqs where
  "ex_oqs =
     \<lparr>OQS_SHA2_sha256 = (\<lambda>data n. replicate 32 (sum_list (take (unat n) data))),
      OQS_SIG_new =
        (\<lambda>alg. if alg = ''Dilithium5'' then Some \<lparr>length_signature = 4595\<rparr> else None),
      OQS_SIG_verify = (\<lambda>s m ml sg sl pk. if sg = replicate 3309 7 then 0 else - 1)\<rparr>"

text \<open>A record that \<open>ex_oqs\<close> accepts for the payload with the bytes 1, 2, 3.\<close>

definition ex_sig :: qwamos_signature where
  "ex_sig =
     \<lparr>magic = 0x4D415751, version = 1, image_size = 3, image_hash = replicate 32 6,
      kyber_signature = replicate 3309 7, reserved = replicate 64 0\<rparr>"

text \<open>
  Two variants of the stand-in: one that knows every scheme name, and one whose
  \<open>OQS_SIG_new\<close> always fails.
\<close>

definition ex_oqs_alt :: liboqs where
  "ex_oqs_alt = ex_oqs\<lparr>OQS_SIG_new := (\<lambda>alg. Some \<lparr>length_signature = 4595\<rparr>)\<rparr>"


text \<open>
  A memory that maps exactly the bytes \<open>bs\<close>, from the address \<open>base\<close> on, and the
  record that 3417 bytes encode. The example payload has three bytes; \<open>ex_trailer\<close> is
  the packed encoding of \<open>ex_sig\<close>. \<open>ex_mem_signed\<close> holds the payload followed by its
  trailer, \<open>ex_mem_unsigned\<close> holds the payload and nothing after it,
  \<open>ex_mem_tampered\<close> holds the signed image with the first byte of the magic
  overwritten, \<open>ex_mem_truncated\<close> holds the payload and only the four bytes of an
  altered magic after it, and \<open>ex_mem_initramfs\<close> holds the signed image at another
  address.
\<close>

definition qwamos_signature_of_bytes :: "u8 list \<Rightarrow> qwamos_signature" where
  "qwamos_signature_of_bytes bs =
     \<lparr>magic = le32 (take 4 bs),
      version = le32 (take 4 (drop 4 bs)),
      image_size = le32 (take 4 (drop 8 bs)),
      image_hash = take 32 (drop 12 bs),
      kyber_signature = take KYBER1024_SIGNATURE_BYTES (drop 44 bs),
      reserved = take 64 (drop (44 + KYBER1024_SIGNATURE_BYTES) bs)\<rparr>"

definition mem_of_bytes :: "uintptr_t \<Rightarrow> u8 list \<Rightarrow> memory" where
  "mem_of_bytes base bs =
     (\<lambda>a. if unat (a - base) < length bs then Some (bs ! unat (a - base)) else None)"

definition ex_payload :: "u8 list" where
  "ex_payload = [1, 2, 3]"

definition ex_trailer :: "u8 list" where
  "ex_trailer = [0x51, 0x57, 0x41, 0x4D, 1, 0, 0, 0, 3, 0, 0, 0]
     @ replicate 32 6 @ replicate 3309 7 @ replicate 64 0"

definition ex_mem_signed :: memory where
  "ex_mem_signed = mem_of_bytes 0x80000 (ex_payload @ ex_trailer)"

definition ex_mem_unsigned :: memory where
  "ex_mem_unsigned = mem_of_bytes 0x80000 ex_payload"

definition ex_mem_tampered :: memory where
  "ex_mem_tampered = mem_of_bytes 0x80000 (ex_payload @ ex_trailer[0 := 0])"

definition ex_mem_truncated :: memory where
  "ex_mem_truncated = mem_of_bytes 0x80000 (ex_payload @ [0x00, 0x57, 0x41, 0x4D])"

definition ex_mem_initramfs :: memory where
  "ex_mem_initramfs = mem_of_bytes 0x90000 (ex_payload @ ex_trailer)"

text \<open>
  A stand-in for the kernel's \<open>sscanf\<close> with the format \<open>%d\<close>: white space is
  skipped, then an optional minus sign and a run of decimal digits are converted; text
  after the digits is ignored, and no digit means no conversion. The driver starts
  with all three switches off and all lines low.
\<close>

definition ex_sscanf :: "string \<Rightarrow> int option" where
  "ex_sscanf buf =
     (let s = dropWhile (\<lambda>c. c \<in> set [CHR '' '', CHR ''\<newline>'', CHR 0x09]) buf;
          neg = (s \<noteq> [] \<and> hd s = CHR ''-'');
          ds = takeWhile (\<lambda>c. c \<in> set ''0123456789'') (if neg then tl s else s);
          n = foldl (\<lambda>a c. 10 * a + (of_char c - 48)) (0 :: nat) ds
      in if ds = [] then None else Some (if neg then - int n else int n))"

definition ex_driver :: driver where
  "ex_driver =
     \<lparr>ks_state = \<lparr>camera_enabled = 0, mic_enabled = 0, cellular_enabled = 0\<rparr>,
      gpio_value = (\<lambda>pin. 0),
      kernel_log = []\<rparr>"

section \<open>Properties of the signature verification\<close>

lemma memcmp_eq_0_iff: "memcmp s1 s2 n = 0 \<longleftrightarrow> take n s1 = take n s2"
  by (induction s1 s2 n rule: memcmp.induct) auto

lemma ucast_size_eq_iff: "(ucast (x :: u32) = (y :: size_t)) \<longleftrightarrow> unat x = unat y"
proof -
  have "unat x < 2 ^ 32"
    using unsigned_less [of x, where 'a = nat] by simp
  then have "unat (ucast x :: size_t) = unat x"
    by (simp add: unsigned_ucast_eq take_bit_nat_eq_self)
  then show ?thesis
    by (simp add: word_unat_eq_iff)
qed

lemma verify_signature_result:
  "fst (kyber1024_verify_signature oqs message message_len (Some signature) public_key) =
     (if \<exists>s. OQS_SIG_new oqs OQS_SIG_alg_dilithium_5 = Some s \<and>
            OQS_SIG_verify oqs s message message_len signature (length_signature s) public_key
              = OQS_SUCCESS
      then Return 0 else Return (- 1))"
  by (simp add: kyber1024_verify_signature_def split: option.split)

lemma verify_image_fst:
  "fst (kyber1024_verify_image oqs (Some payload) n (points_to sg) pk) =
     (if magic sg \<noteq> QWAMOS_SIG_MAGIC then Return (- 1)
      else if version sg \<noteq> QWAMOS_SIG_VERSION then Return (- 1)
      else if ucast (image_size sg) \<noteq> n then Return (- 1)
      else if memcmp (OQS_SHA2_sha256 oqs payload n) (image_hash sg) 32 \<noteq> 0 then Return (- 1)
      else fst (kyber1024_verify_signature oqs (OQS_SHA2_sha256 oqs payload n) 32
                  (Some (kyber_signature sg)) pk))"
proof -
  obtain r t where vs: "kyber1024_verify_signature oqs (OQS_SHA2_sha256 oqs payload n) 32
      (Some (kyber_signature sg)) pk = (r, t)"
    by (cases "kyber1024_verify_signature oqs (OQS_SHA2_sha256 oqs payload n) 32
      (Some (kyber_signature sg)) pk")
  have "r = Return 0 \<or> r = Return (- 1)"
    using verify_signature_result [of oqs "OQS_SHA2_sha256 oqs payload n" 32
      "kyber_signature sg" pk] vs
    by (simp split: if_splits)
  then show ?thesis
    by (auto simp: kyber1024_verify_image_def points_to_def sha256_hash_def vs)
qed

text \<open>
  Claim C1. For a payload with its declared size, a signature record and a public key,
  \<open>kyber1024_verify_image\<close> returns 0 exactly when the five invariants hold: the magic
  is \<open>QWAMOS_SIG_MAGIC\<close>, the version is 1, the recorded image size is the declared
  size, the digest computed over the payload is the recorded hash, and the signature
  over that digest verifies under the public key (the scheme is created and
  \<open>OQS_SIG_verify\<close> reports \<open>OQS_SUCCESS\<close>). In every other case the result is the
  failure code -1. The two hypotheses say that the recorded hash and the computed
  digest are 32-byte arrays, as their C types make them.
\<close>

theorem verify_image_success_iff:
  assumes "length (image_hash signature) = 32"
    and "length (OQS_SHA2_sha256 oqs payload declared_size) = 32"
  shows "fst (kyber1024_verify_image oqs (Some payload) declared_size (points_to signature)
                public_key) =
     (if magic signature = QWAMOS_SIG_MAGIC \<and>
         version signature = QWAMOS_SIG_VERSION \<and>
         unat (image_size signature) = unat declared_size \<and>
         OQS_SHA2_sha256 oqs payload declared_size = image_hash signature \<and>
         (\<exists>s. OQS_SIG_new oqs OQS_SIG_alg_dilithium_5 = Some s \<and>
              OQS_SIG_verify oqs s (OQS_SHA2_sha256 oqs payload declared_size) 32
                (kyber_signature signature) (length_signature s) public_key = OQS_SUCCESS)
      then Return 0 else Return (- 1))"
  using assms
  by (simp add: verify_image_fst memcmp_eq_0_iff verify_signature_result ucast_size_eq_iff)

theorem verify_image_success_iff_witness:
  "length (image_hash ex_sig) = 32 \<and>
   length (OQS_SHA2_sha256 ex_oqs [1, 2, 3] 3) = 32 \<and>
   fst (kyber1024_verify_image ex_oqs (Some [1, 2, 3]) 3 (points_to ex_sig) qwamos_public_key)
     = Return 0 \<and>
   fst (kyber1024_verify_image ex_oqs (Some [1, 2, 4]) 3 (points_to ex_sig) qwamos_public_key)
     = Return (- 1)"
proof -
  have h1: "length (image_hash ex_sig) = 32"
    by (simp add: ex_sig_def)
  have h2: "length (OQS_SHA2_sha256 ex_oqs payload 3) = 32" for payload
    by (simp add: ex_oqs_def)
  show ?thesis
    using h1 h2 verify_image_success_iff [OF h1 h2, of "[1, 2, 3]" qwamos_public_key]
      verify_image_success_iff [OF h1 h2, of "[1, 2, 4]" qwamos_public_key]
    by (simp add: ex_sig_def ex_oqs_def QWAMOS_SIG_MAGIC_def QWAMOS_SIG_VERSION_def
        OQS_SIG_alg_dilithium_5_def OQS_SUCCESS_def)
qed

text \<open>
  Claim C3, as stated, has \<open>kyber1024_verify_image\<close> return an error kind for an
  altered magic that is distinct from the other error kinds. The function returns an
  \<open>int\<close>: a record with an altered magic and a record with an intact magic and an
  unsupported version yield the same return value, -1.
\<close>

theorem invalid_magic_return_counterexample:
  "fst (kyber1024_verify_image ex_oqs (Some [1, 2, 3]) 3 (points_to (ex_sig\<lparr>magic := 0\<rparr>))
          qwamos_public_key) = Return (- 1) \<and>
   fst (kyber1024_verify_image ex_oqs (Some [1, 2, 3]) 3 (points_to (ex_sig\<lparr>version := 2\<rparr>))
          qwamos_public_key) = Return (- 1)"
  by (simp add: kyber1024_verify_image_def points_to_def ex_sig_def QWAMOS_SIG_MAGIC_def
      QWAMOS_SIG_VERSION_def)

text \<open>
  Claim C3, amended. For every input whose record has an altered magic,
  \<open>kyber1024_verify_image\<close> returns the failure code -1 (the code shared by all
  failures) and its only effect is the invalid-magic diagnostic, which is what tells
  this failure from the others: the payload is not read, and neither the hash nor the
  signature check is performed. This holds whatever the image pointer is.
\<close>

theorem invalid_magic_short_circuit:
  assumes "magic signature \<noteq> QWAMOS_SIG_MAGIC"
  shows "kyber1024_verify_image oqs img declared_size (points_to signature) public_key =
           (Return (- 1),
            [Printf ''ERROR: Invalid signature magic: 0x%08x\<newline>'' [ArgU32 (magic signature)]]) \<and>
         filter is_crypto_call
           (snd (kyber1024_verify_image oqs img declared_size (points_to signature) public_key))
           = []"
  using assms by (simp add: kyber1024_verify_image_def points_to_def)

theorem invalid_magic_short_circuit_witness:
  "magic (ex_sig\<lparr>magic := 0\<rparr>) \<noteq> QWAMOS_SIG_MAGIC \<and>
   kyber1024_verify_image ex_oqs (Some [1, 2, 3]) 3 (points_to (ex_sig\<lparr>magic := 0\<rparr>))
       qwamos_public_key =
     (Return (- 1), [Printf ''ERROR: Invalid signature magic: 0x%08x\<newline>'' [ArgU32 0]])"
proof -
  have h: "magic (ex_sig\<lparr>magic := 0\<rparr>) \<noteq> QWAMOS_SIG_MAGIC"
    by (simp add: QWAMOS_SIG_MAGIC_def)
  show ?thesis
    using h invalid_magic_short_circuit [OF h, of ex_oqs "Some [1, 2, 3]" 3 qwamos_public_key]
    by simp
qed

text \<open>
  Claim C5, as stated, has \<open>kyber1024_verify_image\<close> return exactly the size-mismatch
  error kind. The function returns an \<open>int\<close>: a record whose image size differs from
  the declared size and a record with an altered magic yield the same return value,
  -1.
\<close>

theorem size_mismatch_return_counterexample:
  "fst (kyber1024_verify_image ex_oqs (Some [1, 2, 3]) 3
          (points_to (ex_sig\<lparr>image_size := 2\<rparr>)) qwamos_public_key) = Return (- 1) \<and>
   fst (kyber1024_verify_image ex_oqs (Some [1, 2, 3]) 3
          (points_to (ex_sig\<lparr>magic := 0x4D415700\<rparr>)) qwamos_public_key) = Return (- 1)"
  by (simp add: kyber1024_verify_image_def points_to_def ex_sig_def QWAMOS_SIG_MAGIC_def
      QWAMOS_SIG_VERSION_def)

text \<open>
  Claim C5, amended. When magic and version are valid and the recorded image size
  differs from the declared payload size, \<open>kyber1024_verify_image\<close> returns the failure
  code -1 (the code shared by all failures) with the size-mismatch diagnostic as its
  only effect, which is what tells this failure from the others: the failure is raised
  before the digest of the payload is computed (no call into liboqs occurs and the
  image pointer is not read). The witness is the 1 MiB payload whose record says
  1 MiB - 1.
\<close>

theorem size_mismatch_before_hash:
  assumes "magic signature = QWAMOS_SIG_MAGIC"
    and "version signature = QWAMOS_SIG_VERSION"
    and "unat (image_size signature) \<noteq> unat declared_size"
  shows "kyber1024_verify_image oqs img declared_size (points_to signature) public_key =
           (Return (- 1),
            [Printf ''ERROR: Image size mismatch: expected %u, got %zu\<newline>''
               [ArgU32 (image_size signature), ArgSize declared_size]]) \<and>
         filter is_crypto_call
           (snd (kyber1024_verify_image oqs img declared_size (points_to signature) public_key))
           = []"
  using assms by (simp add: kyber1024_verify_image_def points_to_def ucast_size_eq_iff)

theorem size_mismatch_before_hash_witness:
  "magic (ex_sig\<lparr>image_size := 1048575\<rparr>) = QWAMOS_SIG_MAGIC \<and>
   version (ex_sig\<lparr>image_size := 1048575\<rparr>) = QWAMOS_SIG_VERSION \<and>
   unat (image_size (ex_sig\<lparr>image_size := 1048575\<rparr>)) \<noteq> unat (1048576 :: size_t) \<and>
   kyber1024_verify_image ex_oqs (Some (replicate 1048576 0)) 1048576
       (points_to (ex_sig\<lparr>image_size := 1048575\<rparr>)) qwamos_public_key =
     (Return (- 1),
      [Printf ''ERROR: Image size mismatch: expected %u, got %zu\<newline>''
         [ArgU32 1048575, ArgSize 1048576]])"
proof -
  have h1: "magic (ex_sig\<lparr>image_size := 1048575\<rparr>) = QWAMOS_SIG_MAGIC"
    by (simp add: ex_sig_def QWAMOS_SIG_MAGIC_def)
  have h2: "version (ex_sig\<lparr>image_size := 1048575\<rparr>) = QWAMOS_SIG_VERSION"
    by (simp add: ex_sig_def QWAMOS_SIG_VERSION_def)
  have h3: "unat (image_size (ex_sig\<lparr>image_size := 1048575\<rparr>)) \<noteq> unat (1048576 :: size_t)"
    by simp
  show ?thesis
    using h1 h2 h3
      size_mismatch_before_hash [OF h1 h2 h3, of ex_oqs "Some (replicate 1048576 0)"
        qwamos_public_key]
    by simp
qed



text \<open>
  Claim C8. \<open>kyber1024_verify_image\<close> keeps no state between calls, so the only thing
  that can differ between two calls on the same image, declared size, record and key is
  what liboqs answers. Whenever the library gives the second call the answers it gave
  the first (the digest of the payload, the scheme object, the verdict on the
  signature), the second call yields the same result and the same effects as the first.
\<close>

theorem verify_image_deterministic:
  assumes "OQS_SHA2_sha256 oqs' payload declared_size = OQS_SHA2_sha256 oqs payload declared_size"
    and "OQS_SIG_new oqs' OQS_SIG_alg_dilithium_5 = OQS_SIG_new oqs OQS_SIG_alg_dilithium_5"
    and "\<And>s. OQS_SIG_verify oqs' s (OQS_SHA2_sha256 oqs payload declared_size) 32
                (kyber_signature signature) (length_signature s) public_key =
              OQS_SIG_verify oqs s (OQS_SHA2_sha256 oqs payload declared_size) 32
                (kyber_signature signature) (length_signature s) public_key"
  shows "kyber1024_verify_image oqs' (Some payload) declared_size (points_to signature)
           public_key =
         kyber1024_verify_image oqs (Some payload) declared_size (points_to signature)
           public_key"
proof -
  have "kyber1024_verify_signature oqs' (OQS_SHA2_sha256 oqs payload declared_size) 32
          (Some (kyber_signature signature)) public_key =
        kyber1024_verify_signature oqs (OQS_SHA2_sha256 oqs payload declared_size) 32
          (Some (kyber_signature signature)) public_key"
    using assms(2,3) by (simp add: kyber1024_verify_signature_def split: option.split)
  then show ?thesis
    using assms(1) by (simp add: kyber1024_verify_image_def points_to_def sha256_hash_def)
qed

theorem verify_image_deterministic_witness:
  "OQS_SHA2_sha256 ex_oqs_alt [1, 2, 3] 3 = OQS_SHA2_sha256 ex_oqs [1, 2, 3] 3 \<and>
   OQS_SIG_new ex_oqs_alt OQS_SIG_alg_dilithium_5 = OQS_SIG_new ex_oqs OQS_SIG_alg_dilithium_5 \<and>
   ex_oqs_alt \<noteq> ex_oqs \<and>
   kyber1024_verify_image ex_oqs_alt (Some [1, 2, 3]) 3 (points_to ex_sig) qwamos_public_key =
   kyber1024_verify_image ex_oqs (Some [1, 2, 3]) 3 (points_to ex_sig) qwamos_public_key"
proof -
  have h1: "OQS_SHA2_sha256 ex_oqs_alt [1, 2, 3] 3 = OQS_SHA2_sha256 ex_oqs [1, 2, 3] 3"
    by (simp add: ex_oqs_alt_def)
  have h2: "OQS_SIG_new ex_oqs_alt OQS_SIG_alg_dilithium_5 =
      OQS_SIG_new ex_oqs OQS_SIG_alg_dilithium_5"
    by (simp add: ex_oqs_alt_def ex_oqs_def OQS_SIG_alg_dilithium_5_def)
  have h3: "OQS_SIG_verify ex_oqs_alt s m 32 (kyber_signature ex_sig) (length_signature s)
        qwamos_public_key =
      OQS_SIG_verify ex_oqs s m 32 (kyber_signature ex_sig) (length_signature s)
        qwamos_public_key" for s m
    by (simp add: ex_oqs_alt_def)
  have "OQS_SIG_new ex_oqs_alt [] \<noteq> OQS_SIG_new ex_oqs []"
    by (simp add: ex_oqs_alt_def ex_oqs_def)
  then have h4: "ex_oqs_alt \<noteq> ex_oqs"
    by auto
  show ?thesis
    using h1 h2 h4 verify_image_deterministic [OF h1 h2 h3]
    by simp
qed

section \<open>Properties of images in memory\<close>

lemma load_bytes_unmapped: "mem p = None \<Longrightarrow> 0 < n \<Longrightarrow> load_bytes mem p n = None"
  by (cases n) simp_all

lemma load_bytes_cong:
  "(\<And>i. i < n \<Longrightarrow> mem (p + word_of_nat i) = mem' (q + word_of_nat i))
     \<Longrightarrow> load_bytes mem p n = load_bytes mem' q n"
proof (induction n arbitrary: p q)
  case 0
  then show ?case by simp
next
  case (Suc n)
  have head: "mem p = mem' q"
    using Suc.prems [of 0] by simp
  have "mem (p + 1 + word_of_nat i) = mem' (q + 1 + word_of_nat i)" if "i < n" for i
    using Suc.prems [of "Suc i"] that by (simp add: add.assoc)
  then have tail: "load_bytes mem (p + 1) n = load_bytes mem' (q + 1) n"
    by (rule Suc.IH)
  show ?case
    unfolding load_bytes.simps head tail ..
qed

lemma load_bytes_cong_offset:
  assumes "\<forall>j < k. mem (p + word_of_nat j) = mem' (q + word_of_nat j)"
    and "off + n \<le> k"
  shows "load_bytes mem (p + word_of_nat off) n = load_bytes mem' (q + word_of_nat off) n"
proof (rule load_bytes_cong)
  fix i
  assume "i < n"
  then have "off + i < k"
    using assms(2) by simp
  then have "mem (p + word_of_nat (off + i)) = mem' (q + word_of_nat (off + i))"
    using assms(1) by blast
  then show "mem (p + word_of_nat off + word_of_nat i) = mem' (q + word_of_nat off + word_of_nat i)"
    by (simp add: add.assoc)
qed

lemma load_bytes_mem_of_bytes:
  "k + n \<le> length bs \<Longrightarrow> length bs \<le> 2 ^ 64
     \<Longrightarrow> load_bytes (mem_of_bytes base bs) (base + word_of_nat k) n = Some (take n (drop k bs))"
proof (induction n arbitrary: k)
  case 0
  then show ?case by simp
next
  case (Suc n)
  have k: "k < length bs" "k < 2 ^ 64"
    using Suc.prems by simp_all
  then have "unat (word_of_nat k :: uintptr_t) = k"
    by (simp add: unat_of_nat)
  then have here: "mem_of_bytes base bs (base + word_of_nat k) = Some (bs ! k)"
    using k by (simp add: mem_of_bytes_def)
  have "load_bytes (mem_of_bytes base bs) (base + word_of_nat (Suc k)) n
          = Some (take n (drop (Suc k) bs))"
    using Suc.prems by (intro Suc.IH) simp_all
  then have rest: "load_bytes (mem_of_bytes base bs) (base + word_of_nat k + 1) n
          = Some (take n (drop (Suc k) bs))"
    by (simp add: ac_simps)
  show ?case
    using here rest k by (simp add: Cons_nth_drop_Suc [symmetric] del: drop_Suc_Cons)
qed

lemma load_field:
  assumes "off + n \<le> length t" and "length p + length t \<le> 2 ^ 64"
  shows "load_bytes (mem_of_bytes base (p @ t)) (base + word_of_nat (length p) + word_of_nat off) n
           = Some (take n (drop off t))"
proof -
  have "load_bytes (mem_of_bytes base (p @ t)) (base + word_of_nat (length p + off)) n
          = Some (take n (drop (length p + off) (p @ t)))"
    using assms by (intro load_bytes_mem_of_bytes) simp_all
  then show ?thesis
    by (simp add: add.assoc)
qed

lemma signature_at_appended:
  assumes "length t = sizeof_qwamos_signature" and "length p < 2 ^ 32"
  shows "signature_at (mem_of_bytes base (p @ t)) (base + word_of_nat (length p))
           = points_to (qwamos_signature_of_bytes t)"
proof -
  have len: "length t = 3417"
    using assms(1) by (simp add: sizeof_qwamos_signature_def KYBER1024_SIGNATURE_BYTES_def)
  then have fits: "length p + length t \<le> 2 ^ 64"
    using assms(2) by simp
  note field = load_field [where p = p and t = t and base = base, OF _ fits]
  have "load_bytes (mem_of_bytes base (p @ t)) (base + word_of_nat (length p)) 4
          = Some (take 4 t)"
    using field [of 0 4] len by simp
  moreover have "load_bytes (mem_of_bytes base (p @ t)) (base + word_of_nat (length p) + 4) 4
          = Some (take 4 (drop 4 t))"
    using field [of 4 4] len by simp
  moreover have "load_bytes (mem_of_bytes base (p @ t)) (base + word_of_nat (length p) + 8) 4
          = Some (take 4 (drop 8 t))"
    using field [of 8 4] len by simp
  moreover have "load_bytes (mem_of_bytes base (p @ t)) (base + word_of_nat (length p) + 12) 32
          = Some (take 32 (drop 12 t))"
    using field [of 12 32] len by simp
  moreover have "load_bytes (mem_of_bytes base (p @ t)) (base + word_of_nat (length p) + 44)
          KYBER1024_SIGNATURE_BYTES = Some (take KYBER1024_SIGNATURE_BYTES (drop 44 t))"
    using field [of 44 KYBER1024_SIGNATURE_BYTES] len by (simp add: KYBER1024_SIGNATURE_BYTES_def)
  ultimately show ?thesis
    by (simp add: signature_at_def points_to_def qwamos_signature_of_bytes_def)
qed

lemma ex_trailer_decodes: "qwamos_signature_of_bytes ex_trailer = ex_sig"
  by (simp add: qwamos_signature_of_bytes_def ex_trailer_def ex_sig_def le32_def
      KYBER1024_SIGNATURE_BYTES_def)

lemma ex_trailer_length: "length ex_trailer = sizeof_qwamos_signature"
  by (simp add: ex_trailer_def sizeof_qwamos_signature_def KYBER1024_SIGNATURE_BYTES_def)

lemma ex_signed_signature: "signature_at ex_mem_signed (0x80000 + 3) = points_to ex_sig"
  using signature_at_appended [where t = ex_trailer and p = ex_payload and base = "0x80000"]
  by (simp add: ex_trailer_length ex_trailer_decodes ex_mem_signed_def) (simp add: ex_payload_def)

lemma ex_signed_payload: "bytes_at ex_mem_signed 0x80000 3 = Some ex_payload"
proof -
  have "load_bytes (mem_of_bytes 0x80000 (ex_payload @ ex_trailer)) (0x80000 + word_of_nat 0)
          3 = Some (take 3 (drop 0 (ex_payload @ ex_trailer)))"
    by (rule load_bytes_mem_of_bytes) (simp_all add: ex_payload_def ex_trailer_def)
  then show ?thesis
    by (simp add: bytes_at_def ex_mem_signed_def ex_payload_def)
qed

lemma ex_unsigned_magic: "ptr_magic (signature_at ex_mem_unsigned (0x80000 + 3)) = None"
proof -
  have "ex_mem_unsigned (0x80000 + 3) = None"
    by (simp add: ex_mem_unsigned_def mem_of_bytes_def ex_payload_def)
  then have "load_bytes ex_mem_unsigned (0x80000 + 3) 4 = None"
    by (rule load_bytes_unmapped) simp
  then show ?thesis
    by (simp add: signature_at_def)
qed

lemma ex_truncated_magic:
  "ptr_magic (signature_at ex_mem_truncated (0x80000 + 3)) = Some 0x4D415700"
proof -
  have "load_bytes (mem_of_bytes 0x80000 (ex_payload @ [0x00, 0x57, 0x41, 0x4D]))
          (0x80000 + word_of_nat (length ex_payload) + word_of_nat 0) 4
        = Some (take 4 (drop 0 [0x00, 0x57, 0x41, 0x4D]))"
    by (rule load_field) (simp_all add: ex_payload_def)
  then show ?thesis
    by (simp add: signature_at_def ex_mem_truncated_def ex_payload_def le32_def)
qed

lemma ex_truncated_version:
  "ptr_version (signature_at ex_mem_truncated (0x80000 + 3)) = None"
proof -
  have "ex_mem_truncated (0x80000 + 3 + 4) = None"
    by (simp add: ex_mem_truncated_def mem_of_bytes_def ex_payload_def)
  then have "load_bytes ex_mem_truncated (0x80000 + 3 + 4) 4 = None"
    by (rule load_bytes_unmapped) simp
  then show ?thesis
    by (simp add: signature_at_def)
qed

text \<open>
  Claim C4, as stated, has the parsing step check that enough trailing bytes exist
  before it reads any field. For a three-byte kernel with no byte mapped after the
  payload, \<open>kyber1024_verify_kernel\<close> does not reject the image: it reads the magic
  at \<open>kernel_addr + kernel_size\<close>, outside the mapped bytes.
\<close>

theorem verify_kernel_bounds_counterexample:
  "ex_mem_unsigned (0x80000 + 3) = None \<and>
   fst (kyber1024_verify_kernel ex_oqs ex_mem_unsigned 0x80000 3) = Fault"
proof -
  have "ex_mem_unsigned (0x80000 + 3) = None"
    by (simp add: ex_mem_unsigned_def mem_of_bytes_def ex_payload_def)
  then show ?thesis
    using ex_unsigned_magic
    by (simp add: kyber1024_verify_kernel_def kyber1024_verify_image_def)
qed

text \<open>
  Claim C4, amended. No check that enough trailing bytes exist is made before a field
  of the record is read: \<open>kyber1024_verify_kernel\<close> reads the magic at
  \<open>kernel_addr + kernel_size\<close> right away, out of bounds when the magic is not mapped
  there. Magic, version and image size are read and checked in that order, each field
  only after the check before it has passed: the first check that fails ends the
  verification with -1 and its own diagnostic.
\<close>

theorem verify_kernel_checks_in_order:
  "(ptr_magic (signature_at mem (kernel_addr + kernel_size)) = None \<longrightarrow>
      fst (kyber1024_verify_kernel oqs mem kernel_addr kernel_size) = Fault) \<and>
   (\<forall>m. ptr_magic (signature_at mem (kernel_addr + kernel_size)) = Some m \<and>
        m \<noteq> QWAMOS_SIG_MAGIC \<longrightarrow>
         kyber1024_verify_kernel oqs mem kernel_addr kernel_size =
           (Return (- 1),
            [Printf ''=== QWAMOS Secure Boot: Kernel Verification ===\<newline>'' [],
             Printf ''Kernel address: 0x%lx\<newline>'' [ArgAddr kernel_addr],
             Printf ''Kernel size: %zu bytes\<newline>'' [ArgSize kernel_size],
             Printf ''ERROR: Invalid signature magic: 0x%08x\<newline>'' [ArgU32 m],
             Printf ''CRITICAL: Kernel signature verification FAILED!\<newline>'' [],
             Printf ''Boot process halted for security.\<newline>'' []])) \<and>
   (\<forall>v. ptr_magic (signature_at mem (kernel_addr + kernel_size)) = Some QWAMOS_SIG_MAGIC \<and>
        ptr_version (signature_at mem (kernel_addr + kernel_size)) = Some v \<and>
        v \<noteq> QWAMOS_SIG_VERSION \<longrightarrow>
         kyber1024_verify_kernel oqs mem kernel_addr kernel_size =
           (Return (- 1),
            [Printf ''=== QWAMOS Secure Boot: Kernel Verification ===\<newline>'' [],
             Printf ''Kernel address: 0x%lx\<newline>'' [ArgAddr kernel_addr],
             Printf ''Kernel size: %zu bytes\<newline>'' [ArgSize kernel_size],
             Printf ''ERROR: Unsupported signature version: %d\<newline>'' [ArgU32 v],
             Printf ''CRITICAL: Kernel signature verification FAILED!\<newline>'' [],
             Printf ''Boot process halted for security.\<newline>'' []])) \<and>
   (\<forall>sz. ptr_magic (signature_at mem (kernel_addr + kernel_size)) = Some QWAMOS_SIG_MAGIC \<and>
        ptr_version (signature_at mem (kernel_addr + kernel_size)) = Some QWAMOS_SIG_VERSION \<and>
        ptr_image_size (signature_at mem (kernel_addr + kernel_size)) = Some sz \<and>
        unat sz \<noteq> unat kernel_size \<longrightarrow>
         kyber1024_verify_kernel oqs mem kernel_addr kernel_size =
           (Return (- 1),
            [Printf ''=== QWAMOS Secure Boot: Kernel Verification ===\<newline>'' [],
             Printf ''Kernel address: 0x%lx\<newline>'' [ArgAddr kernel_addr],
             Printf ''Kernel size: %zu bytes\<newline>'' [ArgSize kernel_size],
             Printf ''ERROR: Image size mismatch: expected %u, got %zu\<newline>''
               [ArgU32 sz, ArgSize kernel_size],
             Printf ''CRITICAL: Kernel signature verification FAILED!\<newline>'' [],
             Printf ''Boot process halted for security.\<newline>'' []]))"
proof (cases "ptr_magic (signature_at mem (kernel_addr + kernel_size))")
  case None
  then show ?thesis
    by (simp add: kyber1024_verify_kernel_def kyber1024_verify_image_def)
next
  case magic: (Some m)
  show ?thesis
  proof (cases "m = QWAMOS_SIG_MAGIC")
    case False
    with magic show ?thesis
      by (simp add: kyber1024_verify_kernel_def kyber1024_verify_image_def)
  next
    case magic_ok: True
    show ?thesis
    proof (cases "ptr_version (signature_at mem (kernel_addr + kernel_size))")
      case None
      with magic magic_ok show ?thesis
        by simp
    next
      case version: (Some v)
      show ?thesis
      proof (cases "v = QWAMOS_SIG_VERSION")
        case False
        with magic magic_ok version show ?thesis
          by (simp add: kyber1024_verify_kernel_def kyber1024_verify_image_def)
      next
        case version_ok: True
        show ?thesis
        proof (cases "ptr_image_size (signature_at mem (kernel_addr + kernel_size))")
          case None
          with magic magic_ok version version_ok show ?thesis
            by simp
        next
          case (Some sz)
          with magic magic_ok version version_ok show ?thesis
            by (simp add: kyber1024_verify_kernel_def kyber1024_verify_image_def
                ucast_size_eq_iff)
        qed
      qed
    qed
  qed
qed

lemma ex_tampered_kernel_rejected:
  "fst (kyber1024_verify_kernel ex_oqs ex_mem_tampered 0x80000 3) = Return (- 1)"
proof -
  have "signature_at ex_mem_tampered (0x80000 + word_of_nat (length ex_payload))
      = points_to (qwamos_signature_of_bytes (ex_trailer[0 := 0]))"
    unfolding ex_mem_tampered_def
    by (rule signature_at_appended) (simp_all add: ex_trailer_length ex_payload_def)
  then have at: "signature_at ex_mem_tampered (0x80000 + 3)
      = points_to (qwamos_signature_of_bytes (ex_trailer[0 := 0]))"
    by (simp add: ex_payload_def)
  have "magic (qwamos_signature_of_bytes (ex_trailer[0 := 0])) \<noteq> QWAMOS_SIG_MAGIC"
    by (simp add: qwamos_signature_of_bytes_def ex_trailer_def le32_def QWAMOS_SIG_MAGIC_def)
  then show ?thesis
    using at by (simp add: kyber1024_verify_kernel_def kyber1024_verify_image_def points_to_def)
qed

theorem verify_kernel_checks_in_order_witness:
  "ptr_magic (signature_at ex_mem_unsigned (0x80000 + 3)) = None \<and>
   fst (kyber1024_verify_kernel ex_oqs ex_mem_unsigned 0x80000 3) = Fault \<and>
   ptr_magic (signature_at ex_mem_truncated (0x80000 + 3)) = Some 0x4D415700 \<and>
   ptr_version (signature_at ex_mem_truncated (0x80000 + 3)) = None \<and>
   fst (kyber1024_verify_kernel ex_oqs ex_mem_truncated 0x80000 3) = Return (- 1) \<and>
   fst (kyber1024_verify_kernel ex_oqs (mem_of_bytes 0x80000 (ex_payload @ ex_trailer[0 := 0]))
          0x80000 3) = Return (- 1) \<and>
   fst (kyber1024_verify_kernel ex_oqs (mem_of_bytes 0x80000 (ex_payload @ ex_trailer[4 := 2]))
          0x80000 3) = Return (- 1) \<and>
   fst (kyber1024_verify_kernel ex_oqs (mem_of_bytes 0x80000 (ex_payload @ ex_trailer[8 := 4]))
          0x80000 3) = Return (- 1)"
proof -
  have at: "signature_at (mem_of_bytes 0x80000 (ex_payload @ ex_trailer[i := b])) (0x80000 + 3)
      = points_to (qwamos_signature_of_bytes (ex_trailer[i := b]))" for i b
    using signature_at_appended [where t = "ex_trailer[i := b]" and p = ex_payload and base = "0x80000"]
    by (simp add: ex_trailer_length) (simp add: ex_payload_def)
  have m: "magic (qwamos_signature_of_bytes (ex_trailer[0 := 0])) \<noteq> QWAMOS_SIG_MAGIC"
    by (simp add: qwamos_signature_of_bytes_def ex_trailer_def le32_def QWAMOS_SIG_MAGIC_def)
  have v: "magic (qwamos_signature_of_bytes (ex_trailer[4 := 2])) = QWAMOS_SIG_MAGIC"
    "version (qwamos_signature_of_bytes (ex_trailer[4 := 2])) \<noteq> QWAMOS_SIG_VERSION"
    by (simp_all add: qwamos_signature_of_bytes_def ex_trailer_def le32_def QWAMOS_SIG_MAGIC_def
        QWAMOS_SIG_VERSION_def)
  have z: "magic (qwamos_signature_of_bytes (ex_trailer[8 := 4])) = QWAMOS_SIG_MAGIC"
    "version (qwamos_signature_of_bytes (ex_trailer[8 := 4])) = QWAMOS_SIG_VERSION"
    "unat (image_size (qwamos_signature_of_bytes (ex_trailer[8 := 4]))) \<noteq> unat (3 :: size_t)"
    by (simp_all add: qwamos_signature_of_bytes_def ex_trailer_def le32_def QWAMOS_SIG_MAGIC_def
        QWAMOS_SIG_VERSION_def)
  have t: "(0x4D415700 :: u32) \<noteq> QWAMOS_SIG_MAGIC"
    by (simp add: QWAMOS_SIG_MAGIC_def)
  show ?thesis
    using ex_unsigned_magic ex_truncated_magic ex_truncated_version at m v z t
      verify_kernel_checks_in_order [where mem = ex_mem_unsigned and kernel_addr = "0x80000"
        and kernel_size = 3 and oqs = ex_oqs]
      verify_kernel_checks_in_order [where mem = ex_mem_truncated and kernel_addr = "0x80000"
        and kernel_size = 3 and oqs = ex_oqs]
      verify_kernel_checks_in_order
        [where mem = "mem_of_bytes 0x80000 (ex_payload @ ex_trailer[0 := 0])"
           and kernel_addr = "0x80000" and kernel_size = 3 and oqs = ex_oqs]
      verify_kernel_checks_in_order
        [where mem = "mem_of_bytes 0x80000 (ex_payload @ ex_trailer[4 := 2])"
           and kernel_addr = "0x80000" and kernel_size = 3 and oqs = ex_oqs]
      verify_kernel_checks_in_order
        [where mem = "mem_of_bytes 0x80000 (ex_payload @ ex_trailer[8 := 4])"
           and kernel_addr = "0x80000" and kernel_size = 3 and oqs = ex_oqs]
    by (simp add: points_to_def)
qed

text \<open>
  Claim C10. When the \<open>n\<close> payload bytes and the record behind them are the same at
  the kernel's address as at the initramfs's address (in the same memory or in two),
  \<open>kyber1024_verify_kernel\<close> and \<open>kyber1024_verify_initramfs\<close> return the same result
  and make the same calls into liboqs; only their console messages differ.
\<close>

theorem kernel_initramfs_same_computation:
  assumes "\<forall>i < unat n + sizeof_qwamos_signature.
             mem (kernel_addr + word_of_nat i) = mem' (initramfs_addr + word_of_nat i)"
  shows "fst (kyber1024_verify_kernel oqs mem kernel_addr n) =
           fst (kyber1024_verify_initramfs oqs mem' initramfs_addr n) \<and>
         filter is_crypto_call (snd (kyber1024_verify_kernel oqs mem kernel_addr n)) =
           filter is_crypto_call (snd (kyber1024_verify_initramfs oqs mem' initramfs_addr n))"
proof -
  have img: "bytes_at mem kernel_addr n = bytes_at mem' initramfs_addr n"
    unfolding bytes_at_def using assms by (intro load_bytes_cong) simp
  have rec: "\<forall>j < sizeof_qwamos_signature.
      mem (kernel_addr + n + word_of_nat j) = mem' (initramfs_addr + n + word_of_nat j)"
  proof (intro allI impI)
    fix j
    assume "j < sizeof_qwamos_signature"
    then have "unat n + j < unat n + sizeof_qwamos_signature"
      by simp
    then have "mem (kernel_addr + word_of_nat (unat n + j)) =
        mem' (initramfs_addr + word_of_nat (unat n + j))"
      using assms by blast
    then show "mem (kernel_addr + n + word_of_nat j) = mem' (initramfs_addr + n + word_of_nat j)"
      by (simp add: add.assoc)
  qed
  note field = load_bytes_cong_offset [OF rec]
  have "load_bytes mem (kernel_addr + n) 4 = load_bytes mem' (initramfs_addr + n) 4"
    using field [of 0 4] by (simp add: sizeof_qwamos_signature_def)
  moreover have "load_bytes mem (kernel_addr + n + 4) 4 = load_bytes mem' (initramfs_addr + n + 4) 4"
    using field [of 4 4] by (simp add: sizeof_qwamos_signature_def)
  moreover have "load_bytes mem (kernel_addr + n + 8) 4 = load_bytes mem' (initramfs_addr + n + 8) 4"
    using field [of 8 4] by (simp add: sizeof_qwamos_signature_def)
  moreover have "load_bytes mem (kernel_addr + n + 12) 32
      = load_bytes mem' (initramfs_addr + n + 12) 32"
    using field [of 12 32] by (simp add: sizeof_qwamos_signature_def)
  moreover have "load_bytes mem (kernel_addr + n + 44) KYBER1024_SIGNATURE_BYTES
      = load_bytes mem' (initramfs_addr + n + 44) KYBER1024_SIGNATURE_BYTES"
    using field [of 44 KYBER1024_SIGNATURE_BYTES] by (simp add: sizeof_qwamos_signature_def)
  ultimately have sg: "signature_at mem (kernel_addr + n) = signature_at mem' (initramfs_addr + n)"
    by (simp add: signature_at_def)
  obtain r t where res: "kyber1024_verify_image oqs (bytes_at mem' initramfs_addr n) n
      (signature_at mem' (initramfs_addr + n)) qwamos_public_key = (r, t)"
    by (cases "kyber1024_verify_image oqs (bytes_at mem' initramfs_addr n) n
      (signature_at mem' (initramfs_addr + n)) qwamos_public_key")
  show ?thesis
    by (cases r) (simp_all add: kyber1024_verify_kernel_def kyber1024_verify_initramfs_def
        Let_def img sg res)
qed

lemma verify_kernel_fst:
  "fst (kyber1024_verify_kernel oqs mem a n) =
     (case fst (kyber1024_verify_image oqs (bytes_at mem a n) n (signature_at mem (a + n))
                  qwamos_public_key) of
        Fault \<Rightarrow> Fault
      | Return r \<Rightarrow> if r \<noteq> 0 then Return (- 1) else Return 0)"
  by (simp add: kyber1024_verify_kernel_def Let_def split: prod.split outcome.split)

lemma ex_kernel_verifies:
  "fst (kyber1024_verify_kernel ex_oqs ex_mem_signed 0x80000 3) = Return 0"
proof -
  have "fst (kyber1024_verify_image ex_oqs (Some ex_payload) 3 (points_to ex_sig)
          qwamos_public_key) = Return 0"
    by (simp add: verify_image_fst verify_signature_result memcmp_eq_0_iff ex_sig_def ex_oqs_def
        ex_payload_def QWAMOS_SIG_MAGIC_def QWAMOS_SIG_VERSION_def OQS_SIG_alg_dilithium_5_def
        OQS_SUCCESS_def)
  then show ?thesis
    using ex_signed_signature ex_signed_payload
    by (simp add: verify_kernel_fst)
qed

theorem kernel_initramfs_same_computation_witness:
  "fst (kyber1024_verify_kernel ex_oqs ex_mem_signed 0x80000 3) = Return 0 \<and>
   fst (kyber1024_verify_initramfs ex_oqs ex_mem_initramfs 0x90000 3) = Return 0"
proof -
  have h: "\<forall>i < unat (3 :: size_t) + sizeof_qwamos_signature.
      ex_mem_signed (0x80000 + word_of_nat i) = ex_mem_initramfs (0x90000 + word_of_nat i)"
    by (simp add: ex_mem_signed_def ex_mem_initramfs_def mem_of_bytes_def)
  show ?thesis
    using kernel_initramfs_same_computation [OF h, of ex_oqs] ex_kernel_verifies
    by simp
qed

section \<open>Properties of key loading and the boot chain\<close>

lemma key_size_less_iff:
  "(key_size :: size_t) < word_of_nat KYBER1024_PUBLIC_KEY_BYTES \<longleftrightarrow>
     unat key_size < KYBER1024_PUBLIC_KEY_BYTES"
  by (simp add: word_less_nat_alt unat_of_nat KYBER1024_PUBLIC_KEY_BYTES_def)

text \<open>
  Claim C7, as stated, has \<open>kyber1024_load_public_key\<close> fail exactly when the store
  is unavailable or the key is not exactly 1568 bytes long. The only length the
  function looks at is the size of the caller's buffer: with a 2000-byte buffer it
  succeeds although 2000 is not 1568, and with a 100-byte buffer it fails although the
  embedded key has exactly 1568 bytes.
\<close>

theorem load_public_key_counterexample:
  "fst (kyber1024_load_public_key (replicate 2000 1) 2000) =
     Return (0, qwamos_public_key @ replicate 432 1) \<and>
   fst (kyber1024_load_public_key (replicate 100 1) 100) = Return (- 1, replicate 100 1) \<and>
   length qwamos_public_key = 1568"
  by (simp add: kyber1024_load_public_key_def memcpy_def qwamos_public_key_def
      KYBER1024_PUBLIC_KEY_BYTES_def)

text \<open>
  Claim C7, amended. \<open>kyber1024_load_public_key\<close> fails, with -1 and the buffer left
  as it was, exactly when the size of the caller's buffer is below 1568; in every other
  case it returns 0 and the buffer starts with the embedded key, unchanged, followed
  by the bytes of the buffer beyond the key. The hypothesis says that \<open>key_size\<close> bytes
  are really there at \<open>key_buffer\<close>.
\<close>

theorem load_public_key_buffer_size:
  assumes "unat key_size \<le> length key_buffer"
  shows "kyber1024_load_public_key key_buffer key_size =
     (if unat key_size < KYBER1024_PUBLIC_KEY_BYTES then
        (Return (- 1, key_buffer), [Printf ''ERROR: Key buffer too small\<newline>'' []])
      else
        (Return (0, qwamos_public_key @ drop KYBER1024_PUBLIC_KEY_BYTES key_buffer), []))"
proof (cases "unat key_size < KYBER1024_PUBLIC_KEY_BYTES")
  case True
  then show ?thesis
    by (simp add: kyber1024_load_public_key_def key_size_less_iff)
next
  case False
  then have fits: "KYBER1024_PUBLIC_KEY_BYTES \<le> length key_buffer"
    using assms by simp
  have "memcpy key_buffer qwamos_public_key KYBER1024_PUBLIC_KEY_BYTES =
      Some (qwamos_public_key @ drop KYBER1024_PUBLIC_KEY_BYTES key_buffer)"
    using fits by (simp add: memcpy_def qwamos_public_key_def)
  with False show ?thesis
    by (simp add: kyber1024_load_public_key_def key_size_less_iff)
qed

theorem load_public_key_buffer_size_witness:
  "unat (2000 :: size_t) \<le> length (replicate 2000 (1 :: u8)) \<and>
   kyber1024_load_public_key (replicate 2000 1) 2000 =
     (Return (0, qwamos_public_key @ replicate 432 1), []) \<and>
   kyber1024_load_public_key (replicate 100 1) 100 =
     (Return (- 1, replicate 100 1), [Printf ''ERROR: Key buffer too small\<newline>'' []])"
proof -
  have h1: "unat (2000 :: size_t) \<le> length (replicate 2000 (1 :: u8))"
    by simp
  have h2: "unat (100 :: size_t) \<le> length (replicate 100 (1 :: u8))"
    by simp
  show ?thesis
    using h1 load_public_key_buffer_size [OF h1] load_public_key_buffer_size [OF h2]
    by (simp add: KYBER1024_PUBLIC_KEY_BYTES_def)
qed

text \<open>
  Claim C2 describes a \<open>secure_boot_verify_chain\<close> that verifies the kernel and then
  the initramfs and succeeds only when both verified, as the function's documentation
  in the header says. The function as written takes no image, loads the key, makes no
  call into liboqs and returns 0, whatever the contents of its buffer were: also when
  the kernel in memory is one that \<open>kyber1024_verify_kernel\<close> rejects.
\<close>

theorem verify_chain_verifies_nothing:
  "fst (secure_boot_verify_chain uninit) = Return 0 \<and>
   filter is_crypto_call (snd (secure_boot_verify_chain uninit)) = [] \<and>
   fst (kyber1024_verify_kernel ex_oqs ex_mem_tampered 0x80000 3) = Return (- 1)"
proof -
  have "kyber1024_load_public_key (map uninit [0..<KYBER1024_PUBLIC_KEY_BYTES])
          (word_of_nat (length (map uninit [0..<KYBER1024_PUBLIC_KEY_BYTES]))) =
        (Return (0, qwamos_public_key), [])"
    by (simp add: kyber1024_load_public_key_def memcpy_def qwamos_public_key_def
        KYBER1024_PUBLIC_KEY_BYTES_def)
  then show ?thesis
    using ex_tampered_kernel_rejected
    by (simp add: secure_boot_verify_chain_def Let_def)
qed

section \<open>Properties of the kill-switch driver\<close>

lemma sprintf_d_bit: "sprintf_d 0 = ''0'' \<and> sprintf_d 1 = ''1''"
  by (simp add: sprintf_d_def decimal.simps)

lemma camera_store_accepts:
  assumes "sscanf buf = Some v" and "v = 0 \<or> v = 1"
  shows "fst (camera_store sscanf d buf count) = sint count"
    and "ks_state (snd (camera_store sscanf d buf count)) = (ks_state d)\<lparr>camera_enabled := v\<rparr>"
    and "gpio_value (snd (camera_store sscanf d buf count)) = (gpio_value d)(GPIO_CAMERA_KILL := v)"
  using assms by (auto simp: camera_store_def gpio_set_state_def Let_def)

lemma mic_store_accepts:
  assumes "sscanf buf = Some v" and "v = 0 \<or> v = 1"
  shows "fst (mic_store sscanf d buf count) = sint count"
    and "ks_state (snd (mic_store sscanf d buf count)) = (ks_state d)\<lparr>mic_enabled := v\<rparr>"
    and "gpio_value (snd (mic_store sscanf d buf count)) = (gpio_value d)(GPIO_MIC_KILL := v)"
  using assms by (auto simp: mic_store_def gpio_set_state_def Let_def)

lemma cellular_store_accepts:
  assumes "sscanf buf = Some v" and "v = 0 \<or> v = 1"
  shows "fst (cellular_store sscanf d buf count) = sint count"
    and "ks_state (snd (cellular_store sscanf d buf count))
           = (ks_state d)\<lparr>cellular_enabled := v\<rparr>"
    and "gpio_value (snd (cellular_store sscanf d buf count))
           = (gpio_value d)(GPIO_CELLULAR_KILL := v)"
  using assms by (auto simp: cellular_store_def gpio_set_state_def Let_def)

lemma toggle_store_rejects:
  assumes "\<forall>v. sscanf buf = Some v \<longrightarrow> v \<noteq> 0 \<and> v \<noteq> 1"
  shows "toggle_store t sscanf d buf count = (- EINVAL, d)"
  using assms
  by (cases t; cases "sscanf buf")
     (auto simp: camera_store_def mic_store_def cellular_store_def)

text \<open>
  Claim C9. A write to one of the three toggle files whose text \<open>sscanf\<close> converts to
  0 or 1 returns \<open>count\<close>, stores the value in the toggle's field of \<open>ks_state\<close> and
  on the toggle's GPIO line, and a following read of the toggle shows that value; the
  other two toggles' fields and lines stay as they were. Any other text (nothing
  converted, or another number) is rejected with \<open>-EINVAL\<close> and leaves the whole
  driver state as it was.
\<close>

theorem killswitch_store_contract:
  "(\<forall>v. sscanf buf = Some v \<and> (v = 0 \<or> v = 1) \<longrightarrow>
      fst (toggle_store t sscanf d buf count) = sint count \<and>
      toggle_enabled t (ks_state (snd (toggle_store t sscanf d buf count))) = v \<and>
      gpio_get_state (toggle_gpio t) (snd (toggle_store t sscanf d buf count)) = v \<and>
      snd (toggle_show t (snd (toggle_store t sscanf d buf count)))
        = (if v = 0 then ''0\<newline>'' else ''1\<newline>'') \<and>
      (\<forall>t'. t' \<noteq> t \<longrightarrow>
         toggle_enabled t' (ks_state (snd (toggle_store t sscanf d buf count)))
           = toggle_enabled t' (ks_state d) \<and>
         gpio_get_state (toggle_gpio t') (snd (toggle_store t sscanf d buf count))
           = gpio_get_state (toggle_gpio t') d)) \<and>
   ((\<forall>v. sscanf buf = Some v \<longrightarrow> v \<noteq> 0 \<and> v \<noteq> 1) \<longrightarrow>
      toggle_store t sscanf d buf count = (- EINVAL, d))"
proof (intro conjI allI impI)
  fix v
  assume a: "sscanf buf = Some v \<and> (v = 0 \<or> v = 1)"
  then have p: "sscanf buf = Some v" and b: "v = 0 \<or> v = 1"
    by simp_all
  let ?d' = "snd (toggle_store t sscanf d buf count)"
  note cam = camera_store_accepts [where sscanf = sscanf and buf = buf and v = v, OF p b]
  note mic = mic_store_accepts [where sscanf = sscanf and buf = buf and v = v, OF p b]
  note cel = cellular_store_accepts [where sscanf = sscanf and buf = buf and v = v, OF p b]
  show "fst (toggle_store t sscanf d buf count) = sint count"
    using cam(1) mic(1) cel(1)
    by (cases t) simp_all
  have st: "ks_state ?d' =
      (case t of Camera \<Rightarrow> (ks_state d)\<lparr>camera_enabled := v\<rparr>
       | Mic \<Rightarrow> (ks_state d)\<lparr>mic_enabled := v\<rparr>
       | Cellular \<Rightarrow> (ks_state d)\<lparr>cellular_enabled := v\<rparr>)"
    using cam(2) mic(2) cel(2)
    by (cases t) simp_all
  have gp: "gpio_value ?d' = (gpio_value d)(toggle_gpio t := v)"
    using cam(3) mic(3) cel(3)
    by (cases t) simp_all
  show "toggle_enabled t (ks_state ?d') = v"
    using st by (cases t) simp_all
  show "gpio_get_state (toggle_gpio t) ?d' = v"
    by (simp add: gpio_get_state_def gp)
  show "snd (toggle_show t ?d') = (if v = 0 then ''0\<newline>'' else ''1\<newline>'')"
    using b st sprintf_d_bit
    by (cases t) (auto simp: camera_show_def mic_show_def cellular_show_def Let_def)
  fix t'
  assume ne: "t' \<noteq> t"
  show "toggle_enabled t' (ks_state ?d') = toggle_enabled t' (ks_state d)"
    using ne st by (cases t; cases t') simp_all
  have "toggle_gpio t' \<noteq> toggle_gpio t"
    using ne
    by (cases t; cases t')
       (simp_all add: GPIO_CAMERA_KILL_def GPIO_MIC_KILL_def GPIO_CELLULAR_KILL_def)
  then show "gpio_get_state (toggle_gpio t') ?d' = gpio_get_state (toggle_gpio t') d"
    by (simp add: gpio_get_state_def gp)
next
  assume "\<forall>v. sscanf buf = Some v \<longrightarrow> v \<noteq> 0 \<and> v \<noteq> 1"
  then show "toggle_store t sscanf d buf count = (- EINVAL, d)"
    by (rule toggle_store_rejects)
qed

lemma ex_sscanf_samples:
  "ex_sscanf ''1\<newline>'' = Some 1"
  "ex_sscanf ''2\<newline>'' = Some 2"
  "ex_sscanf ''on'' = None"
  by (simp_all add: ex_sscanf_def Let_def)

theorem killswitch_store_contract_witness:
  "ex_sscanf ''1\<newline>'' = Some 1 \<and>
   fst (toggle_store Camera ex_sscanf ex_driver ''1\<newline>'' 2) = 2 \<and>
   toggle_enabled Camera (ks_state (snd (toggle_store Camera ex_sscanf ex_driver ''1\<newline>'' 2)))
     = 1 \<and>
   gpio_get_state GPIO_CAMERA_KILL (snd (toggle_store Camera ex_sscanf ex_driver ''1\<newline>'' 2))
     = 1 \<and>
   snd (toggle_show Camera (snd (toggle_store Camera ex_sscanf ex_driver ''1\<newline>'' 2)))
     = ''1\<newline>'' \<and>
   toggle_enabled Mic (ks_state (snd (toggle_store Camera ex_sscanf ex_driver ''1\<newline>'' 2)))
     = 0 \<and>
   toggle_enabled Cellular
     (ks_state (snd (toggle_store Camera ex_sscanf ex_driver ''1\<newline>'' 2))) = 0 \<and>
   ex_sscanf ''2\<newline>'' = Some 2 \<and>
   toggle_store Mic ex_sscanf ex_driver ''2\<newline>'' 2 = (- 22, ex_driver) \<and>
   ex_sscanf ''on'' = None \<and>
   toggle_store Cellular ex_sscanf ex_driver ''on'' 2 = (- 22, ex_driver)"
proof -
  let ?d' = "snd (toggle_store Camera ex_sscanf ex_driver ''1\<newline>'' 2)"
  have acc: "fst (toggle_store Camera ex_sscanf ex_driver ''1\<newline>'' 2) = sint (2 :: size_t) \<and>
      toggle_enabled Camera (ks_state ?d') = 1 \<and>
      gpio_get_state (toggle_gpio Camera) ?d' = 1 \<and>
      snd (toggle_show Camera ?d') = (if (1 :: int) = 0 then ''0\<newline>'' else ''1\<newline>'') \<and>
      (\<forall>t'. t' \<noteq> Camera \<longrightarrow>
         toggle_enabled t' (ks_state ?d') = toggle_enabled t' (ks_state ex_driver) \<and>
         gpio_get_state (toggle_gpio t') ?d' = gpio_get_state (toggle_gpio t') ex_driver)"
    using killswitch_store_contract [where sscanf = ex_sscanf and buf = "''1\<newline>''"
        and t = Camera and d = ex_driver and count = 2]
      ex_sscanf_samples(1)
    by blast
  then have oth: "toggle_enabled t' (ks_state ?d') = toggle_enabled t' (ks_state ex_driver)"
    if "t' \<noteq> Camera" for t'
    using that by blast
  have others: "toggle_enabled Mic (ks_state ?d') = toggle_enabled Mic (ks_state ex_driver)"
    "toggle_enabled Cellular (ks_state ?d') = toggle_enabled Cellular (ks_state ex_driver)"
    using oth [of Mic] oth [of Cellular] by simp_all
  have rej2: "toggle_store Mic ex_sscanf ex_driver ''2\<newline>'' 2 = (- EINVAL, ex_driver)"
    using killswitch_store_contract [where sscanf = ex_sscanf and buf = "''2\<newline>''"
        and t = Mic and d = ex_driver and count = 2]
    by (simp add: ex_sscanf_samples)
  have rej3: "toggle_store Cellular ex_sscanf ex_driver ''on'' 2 = (- EINVAL, ex_driver)"
    using killswitch_store_contract [where sscanf = ex_sscanf and buf = "''on''"
        and t = Cellular and d = ex_driver and count = 2]
    by (simp add: ex_sscanf_samples)
  have init: "mic_enabled (ks_state ex_driver) = 0" "cellular_enabled (ks_state ex_driver) = 0"
    by (simp_all add: ex_driver_def)
  show ?thesis
    using acc others rej2 rej3
    by (simp add: ex_sscanf_samples init EINVAL_def)
qed

end
